theory Spec2Isabelle
  imports Main "HOL-Library.Sublist"
begin

section \<open>The unenroll confirmation modal: state cells and event handlers\<close>

text \<open>
  The development embeds \<^verbatim>\<open>src/containers/UnenrollConfirmModal/hooks.js\<close>.
  The two hooks \<^verbatim>\<open>useUnenrollReasons\<close> and \<^verbatim>\<open>useUnenrollData\<close> own
  five React state cells and return, at every render, the values read from the cells together
  with callbacks that call the cells' setters and two collaborator functions.

  A render is modelled by the record of the cell values it reads (the snapshot its callbacks
  close over). A callback is a function on a run context: the collaborators' world, the cell
  values the next render will read, and the list of calls made so far. A setter call replaces
  one cell in the next render's values and never touches the snapshot, so a callback that reads
  a cell (only \<^verbatim>\<open>submit\<close> does) reads the value of the render it was created in.
  A collaborator may throw; the exception leaves the callback at once, nothing in the file
  catches it.
\<close>

subsection \<open>Data\<close>

text \<open>The cells of the \<^verbatim>\<open>state\<close> dictionary (lines 9 to 15). A cell that starts
  as \<^verbatim>\<open>null\<close> and later holds a string is a \<open>string option\<close>.\<close>

record state =
  confirmed :: bool
  customOption :: string
  isSkipped :: bool
  selectedReason :: "string option"
  submittedReason :: "string option"

text \<open>The arguments of the \<^verbatim>\<open>useState\<close> calls (lines 24 to 27 and 67).\<close>

definition initial :: state where
  "initial = \<lparr>confirmed = False, customOption = '''', isSkipped = False,
              selectedReason = None, submittedReason = None\<rparr>"

text \<open>\<^verbatim>\<open>modalStates\<close> (lines 17 to 21).\<close>

datatype modalStates = ModalConfirm | ModalReason | ModalFinished

text \<open>Modelled from the spec: \<^verbatim>\<open>thunkActions\<close> is imported from
  \<^verbatim>\<open>data/redux\<close>, which is not among the sources. The spec describes the value of
  \<^verbatim>\<open>thunkActions.app.refreshList()\<close> as the one symbolic action "refresh the
  enrollment list" that is handed to \<^verbatim>\<open>dispatch\<close>.\<close>

datatype thunkAction = RefreshList

definition refreshList :: thunkAction where
  "refreshList = RefreshList"

text \<open>The collaborators passed to \<^verbatim>\<open>useUnenrollData\<close> (line 66). Each one acts
  on a world of the caller's choosing and either returns (\<open>None\<close>) or throws a value.\<close>

record ('e, 'w) env =
  closeModal :: "'w \<Rightarrow> 'e option \<times> 'w"
  dispatch :: "thunkAction \<Rightarrow> 'w \<Rightarrow> 'e option \<times> 'w"

text \<open>Every call a callback makes, in the order made.\<close>

datatype event =
  Called_dispatch thunkAction
  | Called_closeModal
  | Set_confirmed bool
  | Set_customOption string
  | Set_isSkipped bool
  | Set_selectedReason "string option"
  | Set_submittedReason "string option"

record 'w ctx =
  world :: 'w
  pending :: state
  trace :: "event list"

datatype ('e, 'w) outcome = Returned "'w ctx" | Threw 'e "'w ctx"

type_synonym ('e, 'w) callback = "'w ctx \<Rightarrow> ('e, 'w) outcome"

subsection \<open>Setters, collaborator calls, statement sequences\<close>

definition setIsConfirmed :: "bool \<Rightarrow> ('e, 'w) callback" where
  "setIsConfirmed v c =
     Returned (c\<lparr>pending := (pending c)\<lparr>confirmed := v\<rparr>, trace := trace c @ [Set_confirmed v]\<rparr>)"

definition setCustomOption :: "string \<Rightarrow> ('e, 'w) callback" where
  "setCustomOption v c =
     Returned (c\<lparr>pending := (pending c)\<lparr>customOption := v\<rparr>,
                trace := trace c @ [Set_customOption v]\<rparr>)"

definition setIsSkipped :: "bool \<Rightarrow> ('e, 'w) callback" where
  "setIsSkipped v c =
     Returned (c\<lparr>pending := (pending c)\<lparr>isSkipped := v\<rparr>, trace := trace c @ [Set_isSkipped v]\<rparr>)"

definition setSelectedReason :: "string option \<Rightarrow> ('e, 'w) callback" where
  "setSelectedReason v c =
     Returned (c\<lparr>pending := (pending c)\<lparr>selectedReason := v\<rparr>,
                trace := trace c @ [Set_selectedReason v]\<rparr>)"

definition setSubmittedReason :: "string option \<Rightarrow> ('e, 'w) callback" where
  "setSubmittedReason v c =
     Returned (c\<lparr>pending := (pending c)\<lparr>submittedReason := v\<rparr>,
                trace := trace c @ [Set_submittedReason v]\<rparr>)"

text \<open>A call of a collaborator: the call is recorded, the world is what the collaborator
  leaves, and a thrown value ends the callback.\<close>

definition call :: "('w \<Rightarrow> 'e option \<times> 'w) \<Rightarrow> event \<Rightarrow> ('e, 'w) callback" where
  "call f ev c =
     (case f (world c) of
        (None, w') \<Rightarrow> Returned (c\<lparr>world := w', trace := trace c @ [ev]\<rparr>)
      | (Some e, w') \<Rightarrow> Threw e (c\<lparr>world := w', trace := trace c @ [ev]\<rparr>))"

text \<open>The statements of a function body, run in order; the first throw skips the rest.\<close>

fun block :: "('e, 'w) callback list \<Rightarrow> ('e, 'w) callback" where
  "block [] c = Returned c"
| "block (f # fs) c = (case f c of Returned c' \<Rightarrow> block fs c' | Threw e c' \<Rightarrow> Threw e c')"

subsection \<open>\<^verbatim>\<open>useUnenrollReasons\<close> (lines 23 to 64)\<close>

text \<open>Modelled from the spec: \<^verbatim>\<open>useValueCallback\<close> is imported from the module
  \<^verbatim>\<open>hooks\<close>, which is not among the sources. The spec describes
  \<^verbatim>\<open>selectOption(key)\<close> as setting the selection to \<^verbatim>\<open>key\<close> and
  \<^verbatim>\<open>customOption.onChange(text)\<close> as setting the text to \<^verbatim>\<open>text\<close>: the
  wrapped setter receives the value the callback is called with.\<close>

definition useValueCallback :: "('v \<Rightarrow> ('e, 'w) callback) \<Rightarrow> 'v \<Rightarrow> ('e, 'w) callback" where
  "useValueCallback cb v = cb v"

definition clear :: "('e, 'w) callback" where
  "clear = block [setSelectedReason None, setSubmittedReason None,
                  setCustomOption '''', setIsSkipped False]"

definition reason_value :: "state \<Rightarrow> string option" where
  "reason_value s = submittedReason s"

definition customOption_value :: "state \<Rightarrow> string" where
  "customOption_value s = customOption s"

definition customOption_onChange :: "string \<Rightarrow> ('e, 'w) callback" where
  "customOption_onChange = useValueCallback setCustomOption"

definition selected :: "state \<Rightarrow> string option" where
  "selected s = selectedReason s"

definition selectOption :: "string \<Rightarrow> ('e, 'w) callback" where
  "selectOption = useValueCallback (\<lambda>v. setSelectedReason (Some v))"

definition skip :: "('e, 'w) callback" where
  "skip = setIsSkipped True"

definition isSubmitted :: "state \<Rightarrow> bool" where
  "isSubmitted s = (submittedReason s \<noteq> None \<or> isSkipped s)"

definition submit :: "state \<Rightarrow> ('e, 'w) callback" where
  "submit s =
     (if selectedReason s = Some ''custom''
      then setSubmittedReason (Some (customOption s))
      else setSubmittedReason (selectedReason s))"

subsection \<open>\<^verbatim>\<open>useUnenrollData\<close> (lines 66 to 110)\<close>

definition confirm :: "('e, 'w) callback" where
  "confirm = setIsConfirmed True"

definition close :: "('e, 'w) env \<Rightarrow> ('e, 'w) callback" where
  "close E = block [call (closeModal E) Called_closeModal, setIsConfirmed False, clear]"

definition modalState :: "state \<Rightarrow> modalStates" where
  "modalState s =
     (if confirmed s
      then (if isSubmitted s then ModalFinished else ModalReason)
      else ModalConfirm)"

definition closeAndRefresh :: "('e, 'w) env \<Rightarrow> ('e, 'w) callback" where
  "closeAndRefresh E =
     block [call (dispatch E refreshList) (Called_dispatch refreshList),
            call (closeModal E) Called_closeModal,
            setIsConfirmed False,
            clear]"

subsection \<open>Events of a session\<close>

text \<open>The callbacks a view can invoke. An event runs the callback of the current render on
  a context that starts from the render's values with no call made; the next render reads
  the values the context ends with, whether the callback returned or threw.\<close>

datatype reason_action = SelectOption string | OnChange string | Skip | Submit | Clear

datatype action = Reason reason_action | Confirm | Close | CloseAndRefresh

fun reason_handler :: "state \<Rightarrow> reason_action \<Rightarrow> ('e, 'w) callback" where
  "reason_handler s (SelectOption k) = selectOption k"
| "reason_handler s (OnChange t) = customOption_onChange t"
| "reason_handler s Skip = skip"
| "reason_handler s Submit = submit s"
| "reason_handler s Clear = clear"

fun handler :: "('e, 'w) env \<Rightarrow> state \<Rightarrow> action \<Rightarrow> ('e, 'w) callback" where
  "handler E s (Reason a) = reason_handler s a"
| "handler E s Confirm = confirm"
| "handler E s Close = close E"
| "handler E s CloseAndRefresh = closeAndRefresh E"

definition fire :: "('e, 'w) env \<Rightarrow> action \<Rightarrow> state \<Rightarrow> 'w \<Rightarrow> ('e, 'w) outcome" where
  "fire E a s w = handler E s a \<lparr>world = w, pending = s, trace = []\<rparr>"

fun final :: "('e, 'w) outcome \<Rightarrow> 'w ctx" where
  "final (Returned c) = c"
| "final (Threw e c) = c"

fun returns :: "('e, 'w) outcome \<Rightarrow> bool" where
  "returns (Returned c) = True"
| "returns (Threw e c) = False"

definition rerender :: "('e, 'w) env \<Rightarrow> action \<Rightarrow> state \<times> 'w \<Rightarrow> state \<times> 'w" where
  "rerender E a sw =
     (let c = final (fire E a (fst sw) (snd sw)) in (pending c, world c))"

definition session :: "('e, 'w) env \<Rightarrow> action list \<Rightarrow> state \<times> 'w \<Rightarrow> state \<times> 'w" where
  "session E as sw = fold (rerender E) as sw"

text \<open>The phases a view reads over a run of events: one read before the first event and
  one after every event.\<close>

fun phases :: "('e, 'w) env \<Rightarrow> action list \<Rightarrow> state \<times> 'w \<Rightarrow> modalStates list" where
  "phases E [] sw = [modalState (fst sw)]"
| "phases E (a # as) sw = modalState (fst sw) # phases E as (rerender E a sw)"

text \<open>The value a callback throws to its caller, if any.\<close>

fun thrown :: "('e, 'w) outcome \<Rightarrow> 'e option" where
  "thrown (Returned c) = None"
| "thrown (Threw e c) = Some e"

text \<open>The setter calls of \<^verbatim>\<open>clear\<close>, in the order of lines 31 to 34.\<close>

definition clear_trace :: "event list" where
  "clear_trace = [Set_selectedReason None, Set_submittedReason None,
                  Set_customOption '''', Set_isSkipped False]"

subsection \<open>Two concrete collaborator pairs\<close>

text \<open>The world counts the collaborator calls that returned. In the first pair both
  collaborators return; in the second \<^verbatim>\<open>closeModal\<close> throws a message.\<close>

definition returning_env :: "(string, nat) env" where
  "returning_env = \<lparr>closeModal = (\<lambda>w. (None, Suc w)), dispatch = (\<lambda>a w. (None, Suc w))\<rparr>"

definition throwing_env :: "(string, nat) env" where
  "throwing_env = \<lparr>closeModal = (\<lambda>w. (Some ''closeModal failed'', w)),
                    dispatch = (\<lambda>a w. (None, Suc w))\<rparr>"

section \<open>What each event does to a render\<close>

lemmas setters = setIsConfirmed_def setCustomOption_def setIsSkipped_def
  setSelectedReason_def setSubmittedReason_def

lemma fire_SelectOption:
  "fire E (Reason (SelectOption k)) s w =
     Returned \<lparr>world = w, pending = s\<lparr>selectedReason := Some k\<rparr>,
               trace = [Set_selectedReason (Some k)]\<rparr>"
  by (simp add: fire_def selectOption_def useValueCallback_def setters)

lemma fire_OnChange:
  "fire E (Reason (OnChange t)) s w =
     Returned \<lparr>world = w, pending = s\<lparr>customOption := t\<rparr>, trace = [Set_customOption t]\<rparr>"
  by (simp add: fire_def customOption_onChange_def useValueCallback_def setters)

lemma fire_Skip:
  "fire E (Reason Skip) s w =
     Returned \<lparr>world = w, pending = s\<lparr>isSkipped := True\<rparr>, trace = [Set_isSkipped True]\<rparr>"
  by (simp add: fire_def skip_def setters)

lemma fire_Submit:
  "fire E (Reason Submit) s w =
     (let v = (if selectedReason s = Some ''custom'' then Some (customOption s)
               else selectedReason s)
      in Returned \<lparr>world = w, pending = s\<lparr>submittedReason := v\<rparr>,
                   trace = [Set_submittedReason v]\<rparr>)"
  by (simp add: fire_def submit_def setters Let_def)

lemma clear_run:
  "clear c =
     Returned (c\<lparr>pending := (pending c)\<lparr>selectedReason := None, submittedReason := None,
                   customOption := '''', isSkipped := False\<rparr>,
                 trace := trace c @ clear_trace\<rparr>)"
  by (simp add: clear_def setters clear_trace_def)

lemma fire_Clear:
  "fire E (Reason Clear) s w =
     Returned \<lparr>world = w,
               pending = s\<lparr>selectedReason := None, submittedReason := None,
                           customOption := '''', isSkipped := False\<rparr>,
               trace = clear_trace\<rparr>"
  by (simp add: fire_def clear_run)

lemma fire_Confirm:
  "fire E Confirm s w =
     Returned \<lparr>world = w, pending = s\<lparr>confirmed := True\<rparr>, trace = [Set_confirmed True]\<rparr>"
  by (simp add: fire_def confirm_def setters)

lemma reset_is_initial:
  "(s::state)\<lparr>confirmed := False, selectedReason := None, submittedReason := None,
              customOption := '''', isSkipped := False\<rparr> = initial"
  by (simp add: initial_def)

lemma fire_Close:
  "fire E Close s w =
     (case closeModal E w of
        (None, w') \<Rightarrow>
          Returned \<lparr>world = w', pending = initial,
                    trace = Called_closeModal # Set_confirmed False # clear_trace\<rparr>
      | (Some e, w') \<Rightarrow> Threw e \<lparr>world = w', pending = s, trace = [Called_closeModal]\<rparr>)"
  by (simp add: fire_def close_def call_def clear_run setters reset_is_initial
      split: prod.splits option.splits)

lemma fire_CloseAndRefresh:
  "fire E CloseAndRefresh s w =
     (case dispatch E refreshList w of
        (Some e, w1) \<Rightarrow>
          Threw e \<lparr>world = w1, pending = s, trace = [Called_dispatch refreshList]\<rparr>
      | (None, w1) \<Rightarrow>
          (case closeModal E w1 of
             (Some e, w2) \<Rightarrow>
               Threw e \<lparr>world = w2, pending = s,
                        trace = [Called_dispatch refreshList, Called_closeModal]\<rparr>
           | (None, w2) \<Rightarrow>
               Returned \<lparr>world = w2, pending = initial,
                         trace = Called_dispatch refreshList # Called_closeModal
                                   # Set_confirmed False # clear_trace\<rparr>))"
  by (simp add: fire_def closeAndRefresh_def call_def clear_run setters reset_is_initial
      split: prod.splits option.splits)

lemma rerender_SelectOption:
  "rerender E (Reason (SelectOption k)) sw = ((fst sw)\<lparr>selectedReason := Some k\<rparr>, snd sw)"
  by (simp add: rerender_def fire_SelectOption)

lemma rerender_OnChange:
  "rerender E (Reason (OnChange t)) sw = ((fst sw)\<lparr>customOption := t\<rparr>, snd sw)"
  by (simp add: rerender_def fire_OnChange)

lemma rerender_Skip:
  "rerender E (Reason Skip) sw = ((fst sw)\<lparr>isSkipped := True\<rparr>, snd sw)"
  by (simp add: rerender_def fire_Skip)

lemma rerender_Submit:
  "rerender E (Reason Submit) sw =
     ((fst sw)\<lparr>submittedReason :=
         (if selectedReason (fst sw) = Some ''custom'' then Some (customOption (fst sw))
          else selectedReason (fst sw))\<rparr>, snd sw)"
  by (simp add: rerender_def fire_Submit Let_def)

lemma rerender_Clear:
  "rerender E (Reason Clear) sw =
     ((fst sw)\<lparr>selectedReason := None, submittedReason := None, customOption := '''',
        isSkipped := False\<rparr>, snd sw)"
  by (simp add: rerender_def fire_Clear)

lemma rerender_Confirm:
  "rerender E Confirm sw = ((fst sw)\<lparr>confirmed := True\<rparr>, snd sw)"
  by (simp add: rerender_def fire_Confirm)

lemma rerender_Close:
  "rerender E Close sw =
     (if fst (closeModal E (snd sw)) = None then initial else fst sw,
      snd (closeModal E (snd sw)))"
  by (simp add: rerender_def fire_Close split: prod.splits option.splits)

lemma rerender_CloseAndRefresh:
  "rerender E CloseAndRefresh sw =
     (case dispatch E refreshList (snd sw) of
        (Some e, w1) \<Rightarrow> (fst sw, w1)
      | (None, w1) \<Rightarrow>
          (if fst (closeModal E w1) = None then initial else fst sw, snd (closeModal E w1)))"
  by (simp add: rerender_def fire_CloseAndRefresh split: prod.splits option.splits)

lemmas rerender_reason = rerender_SelectOption rerender_OnChange rerender_Skip rerender_Submit
  rerender_Clear

lemma session_Nil: "session E [] sw = sw"
  by (simp add: session_def)

lemma session_Cons: "session E (a # as) sw = session E as (rerender E a sw)"
  by (simp add: session_def)

section \<open>The claims\<close>

text \<open>
  Claim C1. The modal phase is a function of the two flags alone: in every state the phase
  is CONFIRM when the confirmed flag is false, else REASON when \<open>isSubmitted\<close> is false,
  else FINISHED, where \<open>isSubmitted\<close> holds when the submitted reason is not null or the
  skipped flag is set. From a fresh session whose \<^verbatim>\<open>closeModal\<close> collaborator
  returns, the events confirm, selectOption("found-another-course"), submit, close show the
  phases CONFIRM, REASON, REASON (after the selection), FINISHED, CONFIRM, and the reason
  value is null after close.
\<close>

theorem modalState_of_flags_and_session:
  "modalState s =
     (if \<not> confirmed s then ModalConfirm
      else if \<not> isSubmitted s then ModalReason else ModalFinished)
   \<and> isSubmitted s = (submittedReason s \<noteq> None \<or> isSkipped s)
   \<and> (fst (closeModal E w) = None \<longrightarrow>
        phases E [Confirm, Reason (SelectOption ''found-another-course''), Reason Submit, Close]
          (initial, w)
          = [ModalConfirm, ModalReason, ModalReason, ModalFinished, ModalConfirm]
        \<and> reason_value (fst (session E
             [Confirm, Reason (SelectOption ''found-another-course''), Reason Submit, Close]
             (initial, w))) = None)"
  by (simp add: modalState_def isSubmitted_def reason_value_def session_Cons session_Nil
      rerender_reason rerender_Confirm rerender_Close initial_def)

theorem modalState_of_flags_and_session_witness:
  "fst (closeModal returning_env 0) = None
   \<and> phases returning_env
        [Confirm, Reason (SelectOption ''found-another-course''), Reason Submit, Close]
        (initial, 0)
      = [ModalConfirm, ModalReason, ModalReason, ModalFinished, ModalConfirm]
   \<and> reason_value (fst (session returning_env
        [Confirm, Reason (SelectOption ''found-another-course''), Reason Submit, Close]
        (initial, 0))) = None
   \<and> submittedReason (initial\<lparr>confirmed := True, isSkipped := True\<rparr>) = None
   \<and> modalState (initial\<lparr>confirmed := True, isSkipped := True\<rparr>) = ModalFinished"
  using modalState_of_flags_and_session
    [of "initial\<lparr>confirmed := True, isSkipped := True\<rparr>" returning_env 0]
  by (simp add: returning_env_def isSubmitted_def initial_def)

text \<open>
  Claim C2. In every state, submit sets the submitted value by the derivation rule: the
  custom text when the selection is "custom", the selected key itself otherwise. So
  selectOption("custom"), customOption.onChange("too expensive"), submit give the value
  "too expensive", and selectOption("found-another-course"), submit give the value
  "found-another-course", whatever the state before.
\<close>

theorem submit_derivation_rule:
  "reason_value (fst (rerender E (Reason Submit) (s, w)))
     = (if selected s = Some ''custom'' then Some (customOption_value s) else selected s)
   \<and> reason_value (fst (session E
        [Reason (SelectOption ''custom''), Reason (OnChange ''too expensive''), Reason Submit]
        (s, w))) = Some ''too expensive''
   \<and> reason_value (fst (session E
        [Reason (SelectOption ''found-another-course''), Reason Submit] (s, w)))
       = Some ''found-another-course''"
  by (simp add: reason_value_def selected_def customOption_value_def session_Cons session_Nil
      rerender_reason)

theorem submit_derivation_rule_witness:
  "reason_value (fst (rerender returning_env (Reason Submit)
       (initial\<lparr>selectedReason := Some ''custom'', customOption := ''too expensive''\<rparr>, 0)))
     = Some ''too expensive''
   \<and> reason_value (fst (session returning_env
        [Reason (SelectOption ''custom''), Reason (OnChange ''too expensive''), Reason Submit]
        (initial\<lparr>selectedReason := Some ''custom'', customOption := ''too expensive''\<rparr>, 0)))
       = Some ''too expensive''
   \<and> reason_value (fst (session returning_env
        [Reason (SelectOption ''found-another-course''), Reason Submit]
        (initial\<lparr>selectedReason := Some ''custom'', customOption := ''too expensive''\<rparr>, 0)))
       = Some ''found-another-course''"
  using submit_derivation_rule
    [of returning_env
        "initial\<lparr>selectedReason := Some ''custom'', customOption := ''too expensive''\<rparr>" 0]
  by (simp add: selected_def customOption_value_def initial_def)

text \<open>
  Claim C3. In every call of closeAndRefresh the calls are made in one order: the refresh
  action is dispatched first, \<^verbatim>\<open>closeModal\<close> is called second, and the state is reset
  only after both, \<^verbatim>\<open>isConfirmed\<close> first and then the four cells of
  \<^verbatim>\<open>reason.clear()\<close>. The calls of a run are always an initial part of that list
  (a collaborator that throws ends the run there) that starts with the dispatch, and a run
  that returns has made all of them, the world being what \<^verbatim>\<open>closeModal\<close> leaves of
  what \<^verbatim>\<open>dispatch\<close> left. The run returns exactly when both collaborators return;
  then the next render reads every cell reset to its initial value, and when a collaborator
  throws, no cell has been set and the next render reads the values of the render before.
\<close>

theorem closeAndRefresh_call_order:
  "prefix (trace (final (fire E CloseAndRefresh s w)))
      [Called_dispatch refreshList, Called_closeModal, Set_confirmed False,
       Set_selectedReason None, Set_submittedReason None, Set_customOption '''',
       Set_isSkipped False]
   \<and> take 1 (trace (final (fire E CloseAndRefresh s w))) = [Called_dispatch refreshList]
   \<and> (returns (fire E CloseAndRefresh s w) \<longrightarrow>
        trace (final (fire E CloseAndRefresh s w)) =
          [Called_dispatch refreshList, Called_closeModal, Set_confirmed False,
           Set_selectedReason None, Set_submittedReason None, Set_customOption '''',
           Set_isSkipped False]
        \<and> world (final (fire E CloseAndRefresh s w))
            = snd (closeModal E (snd (dispatch E refreshList w))))
   \<and> returns (fire E CloseAndRefresh s w) =
       (fst (dispatch E refreshList w) = None
        \<and> fst (closeModal E (snd (dispatch E refreshList w))) = None)
   \<and> pending (final (fire E CloseAndRefresh s w)) =
       (if returns (fire E CloseAndRefresh s w)
        then \<lparr>confirmed = False, customOption = '''', isSkipped = False,
              selectedReason = None, submittedReason = None\<rparr>
        else s)
   \<and> (\<not> returns (fire E CloseAndRefresh s w) \<longrightarrow>
        length (trace (final (fire E CloseAndRefresh s w))) \<le> 2
        \<and> pending (final (fire E CloseAndRefresh s w)) = s)"
  by (simp add: fire_CloseAndRefresh clear_trace_def initial_def
      split: prod.splits option.splits)

theorem closeAndRefresh_call_order_witness:
  "returns (fire returning_env CloseAndRefresh
       \<lparr>confirmed = True, customOption = ''x'', isSkipped = True,
        selectedReason = Some ''custom'', submittedReason = Some ''x''\<rparr> 0) = True
   \<and> trace (final (fire returning_env CloseAndRefresh
       \<lparr>confirmed = True, customOption = ''x'', isSkipped = True,
        selectedReason = Some ''custom'', submittedReason = Some ''x''\<rparr> 0)) =
          [Called_dispatch refreshList, Called_closeModal, Set_confirmed False,
           Set_selectedReason None, Set_submittedReason None, Set_customOption '''',
           Set_isSkipped False]
   \<and> world (final (fire returning_env CloseAndRefresh
       \<lparr>confirmed = True, customOption = ''x'', isSkipped = True,
        selectedReason = Some ''custom'', submittedReason = Some ''x''\<rparr> 0)) = 2
   \<and> pending (final (fire returning_env CloseAndRefresh
       \<lparr>confirmed = True, customOption = ''x'', isSkipped = True,
        selectedReason = Some ''custom'', submittedReason = Some ''x''\<rparr> 0))
       = \<lparr>confirmed = False, customOption = '''', isSkipped = False,
          selectedReason = None, submittedReason = None\<rparr>
   \<and> returns (fire throwing_env CloseAndRefresh
       \<lparr>confirmed = True, customOption = ''x'', isSkipped = True,
        selectedReason = Some ''custom'', submittedReason = Some ''x''\<rparr> 0) = False
   \<and> trace (final (fire throwing_env CloseAndRefresh
       \<lparr>confirmed = True, customOption = ''x'', isSkipped = True,
        selectedReason = Some ''custom'', submittedReason = Some ''x''\<rparr> 0))
       = [Called_dispatch refreshList, Called_closeModal]
   \<and> pending (final (fire throwing_env CloseAndRefresh
       \<lparr>confirmed = True, customOption = ''x'', isSkipped = True,
        selectedReason = Some ''custom'', submittedReason = Some ''x''\<rparr> 0))
       = \<lparr>confirmed = True, customOption = ''x'', isSkipped = True,
          selectedReason = Some ''custom'', submittedReason = Some ''x''\<rparr>"
proof -
  have r: "returns (fire returning_env CloseAndRefresh
       \<lparr>confirmed = True, customOption = ''x'', isSkipped = True,
        selectedReason = Some ''custom'', submittedReason = Some ''x''\<rparr> 0) = True"
    by (simp add: fire_CloseAndRefresh returning_env_def)
  have t: "returns (fire throwing_env CloseAndRefresh
       \<lparr>confirmed = True, customOption = ''x'', isSkipped = True,
        selectedReason = Some ''custom'', submittedReason = Some ''x''\<rparr> 0) = False"
    by (simp add: fire_CloseAndRefresh throwing_env_def)
  have tt: "trace (final (fire throwing_env CloseAndRefresh
       \<lparr>confirmed = True, customOption = ''x'', isSkipped = True,
        selectedReason = Some ''custom'', submittedReason = Some ''x''\<rparr> 0))
       = [Called_dispatch refreshList, Called_closeModal]"
    by (simp add: fire_CloseAndRefresh throwing_env_def)
  have w: "snd (closeModal returning_env (snd (dispatch returning_env refreshList 0))) = 2"
    by (simp add: returning_env_def)
  from closeAndRefresh_call_order [of returning_env
         "\<lparr>confirmed = True, customOption = ''x'', isSkipped = True,
           selectedReason = Some ''custom'', submittedReason = Some ''x''\<rparr>" 0]
       closeAndRefresh_call_order [of throwing_env
         "\<lparr>confirmed = True, customOption = ''x'', isSkipped = True,
           selectedReason = Some ''custom'', submittedReason = Some ''x''\<rparr>" 0]
       r t tt w
  show ?thesis by simp
qed

text \<open>
  Claim C4, as stated, fails: no callback catches what a collaborator throws. With a
  \<^verbatim>\<open>closeModal\<close> that throws, close() throws the same value to its caller after the
  one call, no setter is called, and the next render still reads the confirmed and skipped
  flags as set.
\<close>

theorem close_reset_lost_when_closeModal_throws:
  "thrown (fire throwing_env Close (initial\<lparr>confirmed := True, isSkipped := True\<rparr>) 0)
     = Some ''closeModal failed''
   \<and> trace (final (fire throwing_env Close (initial\<lparr>confirmed := True, isSkipped := True\<rparr>) 0))
     = [Called_closeModal]
   \<and> confirmed (pending (final
        (fire throwing_env Close (initial\<lparr>confirmed := True, isSkipped := True\<rparr>) 0))) = True
   \<and> isSkipped (pending (final
        (fire throwing_env Close (initial\<lparr>confirmed := True, isSkipped := True\<rparr>) 0))) = True"
  by (simp add: fire_Close throwing_env_def initial_def)

text \<open>
  Claim C4, amended. The callbacks that call no collaborator (selectOption,
  customOption.onChange, skip, submit, clear, confirm) never throw. close() throws exactly
  what \<^verbatim>\<open>closeModal\<close> throws, and closeAndRefresh() exactly what
  \<^verbatim>\<open>dispatch\<close> throws or, when that returns, what \<^verbatim>\<open>closeModal\<close> throws. When
  the collaborators return, the reset completes and the next render reads the initial
  values; when one throws, no cell is reset and the next render reads the values of the
  render before.
\<close>

theorem close_throws_what_collaborators_throw:
  "thrown (fire E (Reason a) s w) = None
   \<and> thrown (fire E Confirm s w) = None
   \<and> thrown (fire E Close s w) = fst (closeModal E w)
   \<and> pending (final (fire E Close s w)) = (if fst (closeModal E w) = None then initial else s)
   \<and> thrown (fire E CloseAndRefresh s w) =
       (if fst (dispatch E refreshList w) = None
        then fst (closeModal E (snd (dispatch E refreshList w)))
        else fst (dispatch E refreshList w))
   \<and> pending (final (fire E CloseAndRefresh s w)) =
       (if thrown (fire E CloseAndRefresh s w) = None then initial else s)"
proof -
  have r: "thrown (fire E (Reason a) s w) = None"
    by (cases a)
      (simp_all add: fire_SelectOption fire_OnChange fire_Skip fire_Submit fire_Clear Let_def)
  have c: "thrown (fire E Confirm s w) = None"
    by (simp add: fire_Confirm)
  have cl: "thrown (fire E Close s w) = fst (closeModal E w)"
    "pending (final (fire E Close s w)) = (if fst (closeModal E w) = None then initial else s)"
    by (simp_all add: fire_Close split: prod.splits option.splits)
  have cr: "thrown (fire E CloseAndRefresh s w) =
       (if fst (dispatch E refreshList w) = None
        then fst (closeModal E (snd (dispatch E refreshList w)))
        else fst (dispatch E refreshList w))"
    "pending (final (fire E CloseAndRefresh s w)) =
       (if thrown (fire E CloseAndRefresh s w) = None then initial else s)"
    by (simp_all add: fire_CloseAndRefresh split: prod.splits option.splits)
  from r c cl cr show ?thesis by simp
qed

theorem close_throws_what_collaborators_throw_witness:
  "thrown (fire returning_env (Reason Submit) (initial\<lparr>confirmed := True\<rparr>) 0) = None
   \<and> thrown (fire returning_env Close (initial\<lparr>confirmed := True\<rparr>) 0) = None
   \<and> pending (final (fire returning_env Close (initial\<lparr>confirmed := True\<rparr>) 0)) = initial
   \<and> thrown (fire returning_env CloseAndRefresh (initial\<lparr>confirmed := True\<rparr>) 0) = None
   \<and> pending (final (fire returning_env CloseAndRefresh (initial\<lparr>confirmed := True\<rparr>) 0))
       = initial"
  using close_throws_what_collaborators_throw
    [of returning_env Submit "initial\<lparr>confirmed := True\<rparr>" 0]
  by (simp add: returning_env_def)

text \<open>
  Claim C5, as stated, fails: from a fresh session skip() leaves the phase at CONFIRM, and
  the single event confirm() then makes the next phase read FINISHED, with no read of
  REASON in between.
\<close>

theorem skip_then_confirm_reads_finished:
  "modalState (fst (session returning_env [Reason Skip] (initial, 0))) = ModalConfirm
   \<and> modalState (fst (session returning_env [Reason Skip, Confirm] (initial, 0)))
       = ModalFinished"
  by (simp add: session_Cons session_Nil rerender_Skip rerender_Confirm modalState_def
      isSubmitted_def initial_def)

text \<open>
  Claim C5, amended. In a state whose phase reads CONFIRM, a single event makes the next
  phase read FINISHED exactly when the event is confirm() and \<open>isSubmitted\<close> already
  holds (a reason was submitted or skipped before confirmation). confirm() with
  \<open>isSubmitted\<close> false leads to REASON, and every other event (selectOption,
  customOption.onChange, skip, submit, clear, close, closeAndRefresh) leaves the phase at
  CONFIRM.
\<close>

theorem confirm_to_finished_only_by_confirm_when_submitted:
  assumes "modalState s = ModalConfirm"
  shows "(modalState (fst (rerender E a (s, w))) = ModalFinished)
           = (a = Confirm \<and> isSubmitted s)
         \<and> modalState (fst (rerender E a (s, w))) =
             (if a = Confirm
              then (if isSubmitted s then ModalFinished else ModalReason)
              else ModalConfirm)"
proof (cases a)
  case (Reason r)
  with assms show ?thesis
    by (cases r) (simp_all add: rerender_reason modalState_def split: if_splits)
next
  case Confirm
  with assms show ?thesis
    by (simp add: rerender_Confirm modalState_def isSubmitted_def split: if_splits)
next
  case Close
  with assms show ?thesis
    by (simp add: rerender_Close modalState_def initial_def split: if_splits)
next
  case CloseAndRefresh
  with assms show ?thesis
    by (simp add: rerender_CloseAndRefresh modalState_def initial_def
        split: if_splits prod.splits option.splits)
qed

theorem confirm_to_finished_only_by_confirm_when_submitted_witness:
  "modalState (initial\<lparr>isSkipped := True\<rparr>) = ModalConfirm
   \<and> isSubmitted (initial\<lparr>isSkipped := True\<rparr>) = True
   \<and> modalState (fst (rerender returning_env Confirm (initial\<lparr>isSkipped := True\<rparr>, 0)))
       = ModalFinished
   \<and> modalState initial = ModalConfirm
   \<and> isSubmitted initial = False
   \<and> modalState (fst (rerender returning_env Confirm (initial, 0))) = ModalReason
   \<and> modalState (fst (rerender returning_env (Reason Skip) (initial, 0))) = ModalConfirm
   \<and> modalState (fst (rerender returning_env CloseAndRefresh (initial\<lparr>isSkipped := True\<rparr>, 0)))
       = ModalConfirm"
proof -
  have h: "modalState (initial\<lparr>isSkipped := True\<rparr>) = ModalConfirm"
    by (simp add: modalState_def initial_def)
  have i: "isSubmitted (initial\<lparr>isSkipped := True\<rparr>) = True"
    by (simp add: isSubmitted_def)
  have h0: "modalState initial = ModalConfirm"
    by (simp add: modalState_def initial_def)
  have i0: "isSubmitted initial = False"
    by (simp add: isSubmitted_def initial_def)
  from confirm_to_finished_only_by_confirm_when_submitted [OF h, of returning_env Confirm 0]
       confirm_to_finished_only_by_confirm_when_submitted
         [OF h, of returning_env CloseAndRefresh 0]
       confirm_to_finished_only_by_confirm_when_submitted [OF h0, of returning_env Confirm 0]
       confirm_to_finished_only_by_confirm_when_submitted
         [OF h0, of returning_env "Reason Skip" 0]
       h i h0 i0
  show ?thesis by simp
qed

text \<open>
  Claim C6. After any sequence of selectOption, customOption.onChange, skip and submit
  calls (and clear calls), from any state, one clear() restores every field of Reason
  Capture to its initial value: selected is null, the custom text is empty, isSkipped is
  false, the value is null, and so isSubmitted is false.
\<close>

theorem clear_restores_reason_fields:
  "selected (fst (rerender E (Reason Clear) (session E (map Reason as) sw))) = None
   \<and> customOption_value (fst (rerender E (Reason Clear) (session E (map Reason as) sw))) = ''''
   \<and> isSkipped (fst (rerender E (Reason Clear) (session E (map Reason as) sw))) = False
   \<and> reason_value (fst (rerender E (Reason Clear) (session E (map Reason as) sw))) = None
   \<and> isSubmitted (fst (rerender E (Reason Clear) (session E (map Reason as) sw))) = False"
  by (simp add: rerender_Clear selected_def customOption_value_def reason_value_def
      isSubmitted_def)

theorem clear_restores_reason_fields_witness:
  "fst (session returning_env
         (map Reason [SelectOption ''custom'', OnChange ''too expensive'', Skip, Submit])
         (initial, 0))
     = \<lparr>confirmed = False, customOption = ''too expensive'', isSkipped = True,
        selectedReason = Some ''custom'', submittedReason = Some ''too expensive''\<rparr>
   \<and> fst (rerender returning_env (Reason Clear) (session returning_env
         (map Reason [SelectOption ''custom'', OnChange ''too expensive'', Skip, Submit])
         (initial, 0)))
     = initial
   \<and> isSubmitted (fst (rerender returning_env (Reason Clear) (session returning_env
         (map Reason [SelectOption ''custom'', OnChange ''too expensive'', Skip, Submit])
         (initial, 0)))) = False"
  using clear_restores_reason_fields
    [of returning_env "[SelectOption ''custom'', OnChange ''too expensive'', Skip, Submit]"
        "(initial, 0)"]
  by (simp add: session_Cons session_Nil rerender_reason initial_def)

text \<open>
  Claim C7. In a state with no selection (selected is null) and no submitted value, skip()
  makes isSubmitted true while the value stays null.
\<close>

theorem skip_submits_without_value:
  assumes "selected s = None" and "reason_value s = None"
  shows "isSubmitted (fst (rerender E (Reason Skip) (s, w))) = True
         \<and> reason_value (fst (rerender E (Reason Skip) (s, w))) = None"
  using assms by (simp add: rerender_Skip isSubmitted_def reason_value_def)

theorem skip_submits_without_value_witness:
  "selected initial = None
   \<and> reason_value initial = None
   \<and> isSubmitted initial = False
   \<and> isSubmitted (fst (rerender returning_env (Reason Skip) (initial, 0))) = True
   \<and> reason_value (fst (rerender returning_env (Reason Skip) (initial, 0))) = None"
proof -
  have h1: "selected initial = None" by (simp add: selected_def initial_def)
  have h2: "reason_value initial = None" by (simp add: reason_value_def initial_def)
  have h3: "isSubmitted initial = False" by (simp add: isSubmitted_def initial_def)
  from skip_submits_without_value [OF h1 h2, of returning_env 0] h1 h2 h3
  show ?thesis by simp
qed

text \<open>
  Claim C8. confirm() and skip() are idempotent: in every state, the event twice leaves
  the same state as the event once. After a second confirm() isConfirmed is true and the
  modal phase is what it was after the first.
\<close>

theorem confirm_and_skip_idempotent:
  "rerender E Confirm (rerender E Confirm sw) = rerender E Confirm sw
   \<and> rerender E (Reason Skip) (rerender E (Reason Skip) sw) = rerender E (Reason Skip) sw
   \<and> confirmed (fst (rerender E Confirm (rerender E Confirm sw))) = True
   \<and> modalState (fst (rerender E Confirm (rerender E Confirm sw)))
       = modalState (fst (rerender E Confirm sw))"
  by (simp add: rerender_Confirm rerender_Skip)

theorem confirm_and_skip_idempotent_witness:
  "rerender returning_env Confirm (rerender returning_env Confirm (initial, 0))
     = (initial\<lparr>confirmed := True\<rparr>, 0)
   \<and> rerender returning_env Confirm (initial, 0) = (initial\<lparr>confirmed := True\<rparr>, 0)
   \<and> rerender returning_env (Reason Skip) (rerender returning_env (Reason Skip) (initial, 0))
     = (initial\<lparr>isSkipped := True\<rparr>, 0)
   \<and> modalState (fst (rerender returning_env Confirm (rerender returning_env Confirm (initial, 0))))
     = ModalReason"
  using confirm_and_skip_idempotent [of returning_env "(initial, 0)"]
  by (simp add: rerender_Confirm rerender_Skip modalState_def isSubmitted_def initial_def)

text \<open>
  Claim C9. submit() with no selection (selected is null) is accepted: the callback
  returns, and it sets the submitted reason to null. With isSkipped false the state
  afterwards reads isSubmitted false, and the modal phase reads REASON when the session is
  confirmed, before the submit or after it.
\<close>

theorem submit_without_selection_sets_null:
  assumes "selected s = None"
  shows "returns (fire E (Reason Submit) s w)
         \<and> reason_value (fst (rerender E (Reason Submit) (s, w))) = None
         \<and> (isSkipped s = False \<longrightarrow>
              isSubmitted (fst (rerender E (Reason Submit) (s, w))) = False
              \<and> (confirmed s \<longrightarrow>
                   modalState (fst (rerender E (Reason Submit) (s, w))) = ModalReason)
              \<and> modalState (fst (session E [Reason Submit, Confirm] (s, w))) = ModalReason)"
  using assms
  by (simp add: fire_Submit rerender_Submit rerender_Confirm selected_def reason_value_def
      isSubmitted_def modalState_def session_Cons session_Nil Let_def)

theorem submit_without_selection_sets_null_witness:
  "selected (initial\<lparr>confirmed := True\<rparr>) = None
   \<and> isSkipped (initial\<lparr>confirmed := True\<rparr>) = False
   \<and> confirmed (initial\<lparr>confirmed := True\<rparr>) = True
   \<and> returns (fire returning_env (Reason Submit) (initial\<lparr>confirmed := True\<rparr>) 0)
   \<and> reason_value (fst (rerender returning_env (Reason Submit)
        (initial\<lparr>confirmed := True\<rparr>, 0))) = None
   \<and> isSubmitted (fst (rerender returning_env (Reason Submit)
        (initial\<lparr>confirmed := True\<rparr>, 0))) = False
   \<and> modalState (fst (rerender returning_env (Reason Submit)
        (initial\<lparr>confirmed := True\<rparr>, 0))) = ModalReason"
proof -
  have h: "selected (initial\<lparr>confirmed := True\<rparr>) = None"
    by (simp add: selected_def initial_def)
  have k: "isSkipped (initial\<lparr>confirmed := True\<rparr>) = False"
    by (simp add: initial_def)
  from submit_without_selection_sets_null [OF h, of returning_env 0] h k
  show ?thesis by simp
qed

text \<open>
  Claim C10. After selectOption("custom") with the custom text still empty (never changed
  from its initial value, or set to the empty string), submit() gives the value "" and
  isSubmitted true: the empty string is a submitted reason, unlike null, and the modal phase
  of a confirmed session reads FINISHED.
\<close>

theorem custom_empty_text_is_submitted:
  "(customOption_value s = '''' \<longrightarrow>
      reason_value (fst (session E [Reason (SelectOption ''custom''), Reason Submit] (s, w)))
        = Some ''''
      \<and> isSubmitted (fst (session E [Reason (SelectOption ''custom''), Reason Submit] (s, w)))
      \<and> (confirmed s \<longrightarrow>
           modalState (fst (session E [Reason (SelectOption ''custom''), Reason Submit] (s, w)))
             = ModalFinished)
      \<and> modalState (fst (session E
           [Reason (SelectOption ''custom''), Reason Submit, Confirm] (s, w))) = ModalFinished)
   \<and> reason_value (fst (session E
        [Reason (SelectOption ''custom''), Reason (OnChange ''''), Reason Submit] (s, w)))
       = Some ''''
   \<and> isSubmitted (fst (session E
        [Reason (SelectOption ''custom''), Reason (OnChange ''''), Reason Submit] (s, w)))
   \<and> modalState (fst (session E
        [Reason (SelectOption ''custom''), Reason (OnChange ''''), Reason Submit, Confirm]
        (s, w))) = ModalFinished"
  by (simp add: customOption_value_def reason_value_def isSubmitted_def modalState_def
      session_Cons session_Nil rerender_reason rerender_Confirm)

theorem custom_empty_text_is_submitted_witness:
  "customOption_value (initial\<lparr>confirmed := True\<rparr>) = ''''
   \<and> confirmed (initial\<lparr>confirmed := True\<rparr>) = True
   \<and> reason_value (fst (session returning_env
        [Reason (SelectOption ''custom''), Reason Submit] (initial\<lparr>confirmed := True\<rparr>, 0)))
       = Some ''''
   \<and> isSubmitted (fst (session returning_env
        [Reason (SelectOption ''custom''), Reason Submit] (initial\<lparr>confirmed := True\<rparr>, 0)))
       = True
   \<and> modalState (fst (session returning_env
        [Reason (SelectOption ''custom''), Reason Submit] (initial\<lparr>confirmed := True\<rparr>, 0)))
       = ModalFinished"
proof -
  have h: "customOption_value (initial\<lparr>confirmed := True\<rparr>) = ''''"
    by (simp add: customOption_value_def initial_def)
  have k: "confirmed (initial\<lparr>confirmed := True\<rparr>) = True"
    by simp
  from custom_empty_text_is_submitted [of "initial\<lparr>confirmed := True\<rparr>" returning_env 0] h k
  show ?thesis by simp
qed

end
